theory Spec2Isabelle
  imports Main "HOL-Library.Word"
begin

section \<open>The RPC rate limiter (handler/rate_limiter.go)\<close>

text \<open>
  Go's \<^verbatim>\<open>int64\<close> and \<^verbatim>\<open>uint64\<close> are both 64-bit words. A conversion between them keeps
  the bits; what differs is the order used to compare them: \<open><\<close> on words is the unsigned
  order (Go's order on \<^verbatim>\<open>uint64\<close>), \<open><s\<close> is the two's complement order (Go's order on
  \<^verbatim>\<open>int64\<close>).
\<close>

type_synonym int64 = "64 word"
type_synonym uint64 = "64 word"

definition uint64 :: "int64 \<Rightarrow> uint64" where
  "uint64 x = word_of_int (sint x)"

text \<open>Pointers to collectors are addresses into a store, so that two map entries can hold
  the same pointer. Peer identities are strings; a peer's \<^verbatim>\<open>String()\<close> is the identity itself.\<close>

type_synonym addr = nat
type_synonym peer_id = string

subsection \<open>Constants\<close>

definition defaultBurstLimit :: int64 where
  "defaultBurstLimit = 5"

definition rpcLimiterTopic :: string where
  "rpcLimiterTopic = ''rpc-limiter-topic''"

subsection \<open>The leaky-bucket collector\<close>

text \<open>
  Modelled from the spec: the type \<^verbatim>\<open>leakybucket.Collector\<close> with \<^verbatim>\<open>NewCollector\<close>,
  \<^verbatim>\<open>Remaining\<close>, \<^verbatim>\<open>Add\<close> and \<^verbatim>\<open>Free\<close> comes from an imported package that is not among the
  source files. The spec (sections 3, 4.1 and 8, Budget) gives it a capacity, a refill rate and
  a count per peer key, and bounds the available tokens of every key by the capacity whatever
  was committed before. So a bucket holds the count of tokens consumed (none for a key never
  seen), \<^verbatim>\<open>Remaining\<close> is the capacity minus the count, and \<^verbatim>\<open>Add\<close> caps a commit at the
  free capacity: a full bucket takes nothing, an amount above the free capacity fills the
  bucket, and a negative amount cannot take the count below zero. The remaining tokens thus
  stay between 0 and the capacity. Refill over time is not modelled: all operations are taken
  at one instant. \<open>free_calls\<close> counts the calls of \<^verbatim>\<open>Free\<close>, which the spec does not assume
  idempotent.
\<close>

record Collector =
  rate :: nat
  capacity :: int64
  deleteEmptyBuckets :: bool
  buckets :: "peer_id \<rightharpoonup> nat"
  free_calls :: nat

definition NewCollector :: "nat \<Rightarrow> int64 \<Rightarrow> bool \<Rightarrow> Collector" where
  "NewCollector r c d =
     \<lparr>rate = r, capacity = c, deleteEmptyBuckets = d, buckets = Map.empty, free_calls = 0\<rparr>"

definition Count :: "Collector \<Rightarrow> peer_id \<Rightarrow> nat" where
  "Count c key = (case buckets c key of None \<Rightarrow> 0 | Some n \<Rightarrow> n)"

definition Remaining :: "Collector \<Rightarrow> peer_id \<Rightarrow> int64" where
  "Remaining c key = capacity c - of_nat (Count c key)"

definition Add :: "Collector \<Rightarrow> peer_id \<Rightarrow> int64 \<Rightarrow> Collector" where
  "Add c key amount =
     (let count = int (Count c key);
          cap = sint (capacity c)
      in if cap \<le> count then c
         else (let remaining = cap - count;
                   amount = (if remaining < sint amount then remaining else sint amount)
               in c\<lparr>buckets := (buckets c)(key \<mapsto> nat (count + amount))\<rparr>))"

definition Free :: "Collector \<Rightarrow> Collector" where
  "Free c = c\<lparr>buckets := Map.empty, free_calls := Suc (free_calls c)\<rparr>"

text \<open>The invariant of a collector: no count exceeds the capacity. \<^verbatim>\<open>NewCollector\<close> with a
  capacity that is not negative establishes it, \<^verbatim>\<open>Add\<close> and \<^verbatim>\<open>Free\<close> keep it.\<close>

definition within_capacity :: "Collector \<Rightarrow> bool" where
  "within_capacity c = (\<forall>key. int (Count c key) \<le> sint (capacity c))"

subsection \<open>Streams, errors, the mutex\<close>

text \<open>A stream is read through \<^verbatim>\<open>Protocol()\<close> and \<^verbatim>\<open>Conn().RemotePeer()\<close> only; \<open>sid\<close>
  names the stream object that a response is written to.\<close>

record Stream =
  sid :: nat
  Protocol :: string
  RemotePeer :: peer_id

datatype error =
  ErrRateLimited
  | ErrCallerMustHoldLock
  | ErrCollectorDoesNotExist string

datatype response_code = responseCodeInvalidRequest

text \<open>The state of \<^verbatim>\<open>sync.RWMutex\<close>: whether a writer holds it and how many readers do.
  \<^verbatim>\<open>Lock\<close> and \<^verbatim>\<open>RLock\<close> are modelled at the moment the lock is granted; waiting for
  another holder is not modelled. Every \<^verbatim>\<open>RUnlock\<close> below follows an \<^verbatim>\<open>RLock\<close>, so the
  reader count it decrements is positive.\<close>

record rwmutex =
  writer :: bool
  readers :: nat

definition RWMutexLocked :: "rwmutex \<Rightarrow> bool" where
  "RWMutexLocked m = writer m"

definition RWMutexRLocked :: "rwmutex \<Rightarrow> bool" where
  "RWMutexRLocked m = (0 < readers m)"

text \<open>The topic constants of package p2p and the encoding's protocol suffix are not among
  the source files; they are taken as parameters.\<close>

record p2p_provider =
  ProtocolSuffix :: string
  RPCGoodByeTopic :: string
  RPCMetaDataTopic :: string
  RPCPingTopic :: string
  RPCStatusTopic :: string
  RPCBlocksByRangeTopic :: string

subsection \<open>The limiter\<close>

text \<open>
  The first three fields are those of the Go struct \<^verbatim>\<open>limiter\<close>. The others are the
  objects its methods act on: \<open>heap\<close> holds the collectors that the map's pointers refer
  to, \<open>increments\<close> lists the peers passed to the bad-responses scorer's \<^verbatim>\<open>Increment\<close>,
  \<open>responses\<close> lists the error responses written to streams, \<open>logged\<close> the error log;
  each list has the oldest entry first.
\<close>

record limiter =
  limiterMap :: "string \<rightharpoonup> addr"
  p2p :: p2p_provider
  mutex :: rwmutex
  heap :: "addr \<Rightarrow> Collector"
  increments :: "peer_id list"
  responses :: "(nat \<times> response_code \<times> error) list"
  logged :: "string list"

definition Lock :: "limiter \<Rightarrow> limiter" where
  "Lock l = l\<lparr>mutex := (mutex l)\<lparr>writer := True\<rparr>\<rparr>"

definition Unlock :: "limiter \<Rightarrow> limiter" where
  "Unlock l = l\<lparr>mutex := (mutex l)\<lparr>writer := False\<rparr>\<rparr>"

definition RLock :: "limiter \<Rightarrow> limiter" where
  "RLock l = l\<lparr>mutex := (mutex l)\<lparr>readers := Suc (readers (mutex l))\<rparr>\<rparr>"

definition RUnlock :: "limiter \<Rightarrow> limiter" where
  "RUnlock l = l\<lparr>mutex := (mutex l)\<lparr>readers := readers (mutex l) - 1\<rparr>\<rparr>"

definition Increment :: "peer_id \<Rightarrow> limiter \<Rightarrow> limiter" where
  "Increment pid l = l\<lparr>increments := increments l @ [pid]\<rparr>"

text \<open>
  Modelled from the spec: \<^verbatim>\<open>writeErrorResponseToStream\<close> belongs to package handler but
  is not among the source files. The spec (Violation Responder) has it write an error code and
  a message onto the stream; the message is the error's text.
\<close>

definition writeErrorResponseToStream ::
  "response_code \<Rightarrow> error \<Rightarrow> Stream \<Rightarrow> limiter \<Rightarrow> limiter" where
  "writeErrorResponseToStream code reason stream l =
     l\<lparr>responses := responses l @ [(sid stream, code, reason)]\<rparr>"

definition Errorf :: "string \<Rightarrow> limiter \<Rightarrow> limiter" where
  "Errorf msg l = l\<lparr>logged := logged l @ [msg]\<rparr>"

text \<open>The six calls of \<^verbatim>\<open>NewCollector\<close> return six distinct objects; they are stored at the
  addresses 0 to 5 in the order of the calls. A later assignment to an equal key replaces the
  earlier one, as in Go.\<close>

definition blankHeap :: "addr \<Rightarrow> Collector" where
  "blankHeap = (\<lambda>_. NewCollector 0 0 False)"

definition newRateLimiter :: "p2p_provider \<Rightarrow> limiter" where
  "newRateLimiter p2pProvider =
     (let addEncoding = (\<lambda>topic. topic @ ProtocolSuffix p2pProvider);
          topicMap = Map.empty;
          topicMap = topicMap(addEncoding (RPCGoodByeTopic p2pProvider) \<mapsto> 0);
          topicMap = topicMap(addEncoding (RPCMetaDataTopic p2pProvider) \<mapsto> 1);
          topicMap = topicMap(addEncoding (RPCPingTopic p2pProvider) \<mapsto> 2);
          topicMap = topicMap(addEncoding (RPCStatusTopic p2pProvider) \<mapsto> 3);
          blockCollector = 4;
          topicMap = topicMap(addEncoding (RPCBlocksByRangeTopic p2pProvider) \<mapsto> blockCollector);
          topicMap = topicMap(rpcLimiterTopic \<mapsto> 5)
      in \<lparr>limiterMap = topicMap,
          p2p = p2pProvider,
          mutex = \<lparr>writer = False, readers = 0\<rparr>,
          heap = blankHeap
            (0 := NewCollector 1 1 False,
             1 := NewCollector 1 defaultBurstLimit False,
             2 := NewCollector 1 defaultBurstLimit False,
             3 := NewCollector 1 defaultBurstLimit False,
             4 := NewCollector 1 (defaultBurstLimit * 20) False,
             5 := NewCollector 5 (defaultBurstLimit * 2) False),
          increments = [],
          responses = [],
          logged = []\<rparr>)"

definition retrieveCollector :: "limiter \<Rightarrow> string \<Rightarrow> error + addr" where
  "retrieveCollector l topic =
     (if \<not> RWMutexLocked (mutex l) \<and> \<not> RWMutexRLocked (mutex l)
      then Inl ErrCallerMustHoldLock
      else case limiterMap l topic of
             None \<Rightarrow> Inl (ErrCollectorDoesNotExist topic)
           | Some collector \<Rightarrow> Inr collector)"

definition topicCollector :: "limiter \<Rightarrow> string \<Rightarrow> (error + addr) \<times> limiter" where
  "topicCollector l topic =
     (let l = RLock l in (retrieveCollector l topic, RUnlock l))"

text \<open>The result is Go's \<^verbatim>\<open>error\<close>: \<open>None\<close> is \<^verbatim>\<open>nil\<close>. The test
  \<^verbatim>\<open>amt > uint64(remaining)\<close> compares unsigned words.\<close>

definition validateRequest :: "limiter \<Rightarrow> Stream \<Rightarrow> uint64 \<Rightarrow> error option \<times> limiter" where
  "validateRequest l stream amt =
     (let l = RLock l;
          topic = Protocol stream
      in case retrieveCollector l topic of
           Inl err \<Rightarrow> (Some err, RUnlock l)
         | Inr collector \<Rightarrow>
             (let key = RemotePeer stream;
                  remaining = Remaining (heap l collector) key;
                  amt = (if amt = 0 then 1 else amt)
              in if uint64 remaining < amt
                 then (let l = Increment (RemotePeer stream) l;
                           l = writeErrorResponseToStream responseCodeInvalidRequest
                                 ErrRateLimited stream l
                       in (Some ErrRateLimited, RUnlock l))
                 else (None, RUnlock l)))"

text \<open>Here \<^verbatim>\<open>amt\<close> is an \<^verbatim>\<open>int64\<close> and the test \<^verbatim>\<open>amt > remaining\<close> compares signed
  words.\<close>

definition validateRawRpcRequest :: "limiter \<Rightarrow> Stream \<Rightarrow> error option \<times> limiter" where
  "validateRawRpcRequest l stream =
     (let l = RLock l;
          topic = rpcLimiterTopic
      in case retrieveCollector l topic of
           Inl err \<Rightarrow> (Some err, RUnlock l)
         | Inr collector \<Rightarrow>
             (let key = RemotePeer stream;
                  remaining = Remaining (heap l collector) key;
                  amt = (1 :: int64)
              in if remaining <s amt
                 then (let l = Increment (RemotePeer stream) l;
                           l = writeErrorResponseToStream responseCodeInvalidRequest
                                 ErrRateLimited stream l
                       in (Some ErrRateLimited, RUnlock l))
                 else (None, RUnlock l)))"

definition does_not_exist :: "string \<Rightarrow> string" where
  "does_not_exist topic = ''collector with topic '' @ [CHR 0x27] @ topic @ [CHR 0x27] @ '' does not exist''"

definition add :: "limiter \<Rightarrow> Stream \<Rightarrow> int64 \<Rightarrow> limiter" where
  "add l stream amt =
     (let l = Lock l;
          topic = Protocol stream
      in case retrieveCollector l topic of
           Inl err \<Rightarrow> Unlock (Errorf (does_not_exist topic) l)
         | Inr collector \<Rightarrow>
             (let key = RemotePeer stream
              in Unlock (l\<lparr>heap := (heap l)(collector := Add (heap l collector) key amt)\<rparr>)))"

definition addRawStream :: "limiter \<Rightarrow> Stream \<Rightarrow> limiter" where
  "addRawStream l stream =
     (let l = Lock l;
          topic = rpcLimiterTopic
      in case retrieveCollector l topic of
           Inl err \<Rightarrow> Unlock (Errorf (does_not_exist topic) l)
         | Inr collector \<Rightarrow>
             (let key = RemotePeer stream
              in Unlock (l\<lparr>heap := (heap l)(collector := Add (heap l collector) key 1)\<rparr>)))"

text \<open>
  The loop of \<^verbatim>\<open>free\<close> ranges over the map while deleting from it. Go leaves the order of
  a range over a map open, so the order is a parameter: the list of keys in the order the
  range reaches them. A key whose entry is gone when the range reaches it is not produced.
  \<open>tempMap\<close> is the \<^verbatim>\<open>map[uintptr]bool\<close>; a key it does not hold reads as false.
\<close>

fun free_range :: "string list \<Rightarrow> (addr \<Rightarrow> bool) \<Rightarrow> limiter \<Rightarrow> limiter" where
  "free_range [] tempMap l = l"
| "free_range (t # ts) tempMap l =
     (case limiterMap l t of
        None \<Rightarrow> free_range ts tempMap l
      | Some collector \<Rightarrow>
          (let ptr = collector
           in if tempMap ptr
              then free_range ts tempMap (l\<lparr>limiterMap := (limiterMap l)(t := None)\<rparr>)
              else (let l = l\<lparr>heap := (heap l)(collector := Free (heap l collector))\<rparr>;
                        l = l\<lparr>limiterMap := (limiterMap l)(t := None)\<rparr>
                    in free_range ts (tempMap(ptr := True)) l)))"

definition free :: "string list \<Rightarrow> limiter \<Rightarrow> limiter" where
  "free order l = Unlock (free_range order (\<lambda>_. False) (Lock l))"


text \<open>The general admission check in the words of the spec (section 4.3): the logic of the
  per-topic check against the catch-all topic with a fixed cost of 1.\<close>

definition checkGeneralAdmission_spec :: "limiter \<Rightarrow> Stream \<Rightarrow> error option \<times> limiter" where
  "checkGeneralAdmission_spec l stream =
     validateRequest l (stream\<lparr>Protocol := rpcLimiterTopic\<rparr>) 1"

text \<open>Calls of the public operations other than \<open>free\<close>, and the limiter after a sequence
  of them.\<close>

datatype call =
  CallTopicCollector string
  | CallValidateRequest Stream uint64
  | CallValidateRawRpcRequest Stream
  | CallAdd Stream int64
  | CallAddRawStream Stream

fun perform :: "limiter \<Rightarrow> call \<Rightarrow> limiter" where
  "perform l (CallTopicCollector topic) = snd (topicCollector l topic)"
| "perform l (CallValidateRequest stream amt) = snd (validateRequest l stream amt)"
| "perform l (CallValidateRawRpcRequest stream) = snd (validateRawRpcRequest l stream)"
| "perform l (CallAdd stream amt) = add l stream amt"
| "perform l (CallAddRawStream stream) = addRawStream l stream"

definition performAll :: "limiter \<Rightarrow> call list \<Rightarrow> limiter" where
  "performAll l calls = foldl perform l calls"

text \<open>Inputs for the closed theorems: a provider with short topic names, streams of one
  peer on the goodbye topic and on an unregistered topic, and a limiter whose map holds two
  keys for one collector.\<close>

definition example_provider :: p2p_provider where
  "example_provider =
     \<lparr>ProtocolSuffix = ''/ssz'',
      RPCGoodByeTopic = ''/goodbye'',
      RPCMetaDataTopic = ''/metadata'',
      RPCPingTopic = ''/ping'',
      RPCStatusTopic = ''/status'',
      RPCBlocksByRangeTopic = ''/range''\<rparr>"

definition goodbye_stream :: Stream where
  "goodbye_stream = \<lparr>sid = 7, Protocol = ''/goodbye/ssz'', RemotePeer = ''P''\<rparr>"

definition unknown_stream :: Stream where
  "unknown_stream = \<lparr>sid = 8, Protocol = ''/unknown/ssz'', RemotePeer = ''P''\<rparr>"

definition aliased_limiter :: limiter where
  "aliased_limiter =
     (newRateLimiter example_provider)
       \<lparr>limiterMap := [''/range/ssz'' \<mapsto> 4, ''/root/ssz'' \<mapsto> 4, rpcLimiterTopic \<mapsto> 5]\<rparr>"

definition root_stream :: Stream where
  "root_stream = \<lparr>sid = 9, Protocol = ''/root/ssz'', RemotePeer = ''P''\<rparr>"

text \<open>The keys of the example limiter's map in one possible range order, and the limiter
  after \<open>free\<close>.\<close>

definition example_keys :: "string list" where
  "example_keys = [''/goodbye/ssz'', ''/metadata/ssz'', ''/ping/ssz'', ''/status/ssz'', ''/range/ssz'',
     rpcLimiterTopic]"

definition disposed_limiter :: limiter where
  "disposed_limiter = free example_keys (newRateLimiter example_provider)"

section \<open>Resources and tasks (package types)\<close>

text \<open>
  \<^verbatim>\<open>Marshal\<close> of the protobuf types and the zero value made by \<^verbatim>\<open>new\<close> are not among the
  source files; they are parameters. A pointer that may be \<^verbatim>\<open>nil\<close> is an option. The writer
  is the list of the byte slices passed to its \<^verbatim>\<open>Write\<close>, oldest first. The hash and size
  caches are not touched by the functions below and are left out.
\<close>

type_synonym byte = "8 word"

record 'd Resource =
  data :: "'d option"

record 'd Task =
  data :: "'d option"

definition Write :: "byte list list \<Rightarrow> byte list \<Rightarrow> byte list list" where
  "Write w p = w @ [p]"

definition Resource_EncodePb ::
  "('d option \<Rightarrow> byte list \<times> 'e option) \<Rightarrow> 'd Resource \<Rightarrow> byte list list
     \<Rightarrow> 'e option \<times> byte list list" where
  "Resource_EncodePb Marshal m w =
     (let (data, err) = Marshal (Resource.data m)
      in if err \<noteq> None then (err, Write w data) else (err, w))"

definition Task_EncodePb ::
  "('d option \<Rightarrow> byte list \<times> 'e option) \<Rightarrow> 'd \<Rightarrow> 'd Task \<Rightarrow> byte list list
     \<Rightarrow> 'e option \<times> 'd Task \<times> byte list list" where
  "Task_EncodePb Marshal new m w =
     (let m = (if Task.data m = None then m\<lparr>Task.data := Some new\<rparr> else m);
          (data, err) = Marshal (Task.data m)
      in if err = None then (err, m, Write w data) else (err, m, w))"

text \<open>The arrays are slices of pointers; reading a field through a \<^verbatim>\<open>nil\<close> element
  panics.\<close>

datatype panic = NilPointerDereference

definition ResourceArray_Len :: "'d Resource option list \<Rightarrow> nat" where
  "ResourceArray_Len s = length s"

fun ResourceArray_To_range ::
  "'d option list \<Rightarrow> 'd Resource option list \<Rightarrow> panic + 'd option list" where
  "ResourceArray_To_range arr [] = Inr arr"
| "ResourceArray_To_range arr (v # vs) =
     (case v of
        None \<Rightarrow> Inl NilPointerDereference
      | Some r \<Rightarrow> ResourceArray_To_range (arr @ [Resource.data r]) vs)"

definition ResourceArray_To :: "'d Resource option list \<Rightarrow> panic + 'd option list" where
  "ResourceArray_To s =
     (let arr = replicate (ResourceArray_Len s) None
      in ResourceArray_To_range arr s)"

definition TaskDataArray_Len :: "'d Task option list \<Rightarrow> nat" where
  "TaskDataArray_Len s = length s"

fun TaskDataArray_To_range ::
  "'d option list \<Rightarrow> 'd Task option list \<Rightarrow> panic + 'd option list" where
  "TaskDataArray_To_range arr [] = Inr arr"
| "TaskDataArray_To_range arr (v # vs) =
     (case v of
        None \<Rightarrow> Inl NilPointerDereference
      | Some r \<Rightarrow> TaskDataArray_To_range (arr @ [Task.data r]) vs)"

definition TaskDataArray_To :: "'d Task option list \<Rightarrow> panic + 'd option list" where
  "TaskDataArray_To s =
     (let arr = []
      in TaskDataArray_To_range arr s)"

text \<open>A marshalling function for the closed theorems: it fails on a \<^verbatim>\<open>nil\<close> message and on
  a value that does not fit one byte.\<close>

definition example_Marshal :: "nat option \<Rightarrow> byte list \<times> string option" where
  "example_Marshal d =
     (case d of
        None \<Rightarrow> ([], Some ''nil message'')
      | Some n \<Rightarrow> if n < 256 then ([of_nat n], None) else ([], Some ''too large''))"

section \<open>Properties of the rate limiter\<close>

subsection \<open>Auxiliary facts\<close>

lemma uint64_id: "uint64 x = x"
  by (simp add: uint64_def)

lemmas mutex_defs = Lock_def Unlock_def RLock_def RUnlock_def RWMutexLocked_def RWMutexRLocked_def

lemmas example_defs = example_provider_def goodbye_stream_def unknown_stream_def
  root_stream_def aliased_limiter_def rpcLimiterTopic_def defaultBurstLimit_def

lemma validateRequest_registered:
  assumes "limiterMap l (Protocol stream) = Some c"
  shows "validateRequest l stream amt =
     (if Remaining (heap l c) (RemotePeer stream) < (if amt = 0 then 1 else amt)
      then (Some ErrRateLimited,
            l\<lparr>increments := increments l @ [RemotePeer stream],
              responses := responses l @ [(sid stream, responseCodeInvalidRequest, ErrRateLimited)]\<rparr>)
      else (None, l))"
  using assms
  by (simp add: validateRequest_def retrieveCollector_def uint64_id Let_def
      Increment_def writeErrorResponseToStream_def mutex_defs)

lemma validateRawRpcRequest_registered:
  assumes "limiterMap l rpcLimiterTopic = Some c"
  shows "validateRawRpcRequest l stream =
     (if Remaining (heap l c) (RemotePeer stream) <s 1
      then (Some ErrRateLimited,
            l\<lparr>increments := increments l @ [RemotePeer stream],
              responses := responses l @ [(sid stream, responseCodeInvalidRequest, ErrRateLimited)]\<rparr>)
      else (None, l))"
  using assms
  by (simp add: validateRawRpcRequest_def retrieveCollector_def Let_def
      Increment_def writeErrorResponseToStream_def mutex_defs)

lemma validateRequest_unregistered:
  assumes "limiterMap l (Protocol stream) = None"
  shows "validateRequest l stream amt = (Some (ErrCollectorDoesNotExist (Protocol stream)), l)"
  using assms
  by (simp add: validateRequest_def retrieveCollector_def Let_def mutex_defs)

lemma validateRawRpcRequest_unregistered:
  assumes "limiterMap l rpcLimiterTopic = None"
  shows "validateRawRpcRequest l stream = (Some (ErrCollectorDoesNotExist rpcLimiterTopic), l)"
  using assms
  by (simp add: validateRawRpcRequest_def retrieveCollector_def Let_def mutex_defs)

text \<open>On a remaining count that is not negative, the unsigned test of \<open>validateRequest\<close> is
  the comparison of the two numbers.\<close>

lemma unsigned_less_iff_nonneg:
  fixes r a :: "64 word"
  assumes "0 \<le>s r"
  shows "r < a \<longleftrightarrow> sint r < uint a"
proof -
  have nonneg: "0 \<le> sint r"
    using assms by (simp add: word_sle_eq)
  have "sint r < 2 ^ 63"
    using sint_lt [of r] by simp
  with nonneg have "uint r = sint r"
    by (simp add: uint_sint take_bit_int_eq_self)
  then show ?thesis
    by (simp add: word_less_def)
qed

lemma validateRequest_nonneg_remaining:
  assumes "limiterMap l (Protocol stream) = Some c"
    and "0 \<le>s Remaining (heap l c) (RemotePeer stream)"
  shows "validateRequest l stream amt =
     (if sint (Remaining (heap l c) (RemotePeer stream)) < uint (if amt = 0 then 1 else amt)
      then (Some ErrRateLimited,
            l\<lparr>increments := increments l @ [RemotePeer stream],
              responses := responses l @ [(sid stream, responseCodeInvalidRequest, ErrRateLimited)]\<rparr>)
      else (None, l))"
  using assms(1) unsigned_less_iff_nonneg [OF assms(2)]
  by (simp add: validateRequest_registered)

lemma limiterMap_add: "limiterMap (add l stream amt) = limiterMap l"
  by (simp add: add_def retrieveCollector_def mutex_defs Errorf_def Let_def split: option.splits)

lemma example_goodbye:
  "limiterMap (newRateLimiter example_provider) (Protocol goodbye_stream) = Some 0"
  by (simp add: newRateLimiter_def example_defs)

lemma add_unregistered:
  assumes "limiterMap l (Protocol stream) = None"
  shows "add l stream amt =
     l\<lparr>mutex := (mutex l)\<lparr>writer := False\<rparr>, logged := logged l @ [does_not_exist (Protocol stream)]\<rparr>"
  using assms
  by (simp add: add_def retrieveCollector_def Let_def Errorf_def mutex_defs)

lemma add_registered:
  assumes "limiterMap l (Protocol stream) = Some c"
  shows "add l stream amt =
     l\<lparr>mutex := (mutex l)\<lparr>writer := False\<rparr>,
       heap := (heap l)(c := Add (heap l c) (RemotePeer stream) amt)\<rparr>"
  using assms
  by (simp add: add_def retrieveCollector_def Let_def mutex_defs)

lemma addRawStream_unregistered:
  assumes "limiterMap l rpcLimiterTopic = None"
  shows "addRawStream l stream =
     l\<lparr>mutex := (mutex l)\<lparr>writer := False\<rparr>, logged := logged l @ [does_not_exist rpcLimiterTopic]\<rparr>"
  using assms
  by (simp add: addRawStream_def retrieveCollector_def Let_def Errorf_def mutex_defs)

lemma addRawStream_registered:
  assumes "limiterMap l rpcLimiterTopic = Some c"
  shows "addRawStream l stream =
     l\<lparr>mutex := (mutex l)\<lparr>writer := False\<rparr>,
       heap := (heap l)(c := Add (heap l c) (RemotePeer stream) 1)\<rparr>"
  using assms
  by (simp add: addRawStream_def retrieveCollector_def Let_def mutex_defs)

lemma sint_Remaining:
  assumes "within_capacity c"
  shows "sint (Remaining c key) = sint (capacity c) - int (Count c key)"
proof -
  have le: "int (Count c key) \<le> sint (capacity c)"
    using assms by (simp add: within_capacity_def)
  have up: "sint (capacity c) < 2 ^ 63"
    using sint_lt [of "capacity c"] by simp
  have eq: "Remaining c key = word_of_int (sint (capacity c) - int (Count c key))"
    by (simp add: Remaining_def)
  have "sint (Remaining c key)
      = sint (word_of_int (sint (capacity c) - int (Count c key)) :: 64 word)"
    by (simp only: eq)
  also have "\<dots> = signed_take_bit (LENGTH(64) - 1) (sint (capacity c) - int (Count c key))"
    by (rule sint_sbintrunc')
  also have "\<dots> = sint (capacity c) - int (Count c key)"
    using le up by (simp add: signed_take_bit_int_eq_self)
  finally show ?thesis .
qed

lemma Remaining_nonneg: "within_capacity c \<Longrightarrow> 0 \<le>s Remaining c key"
  by (simp add: word_sle_eq sint_Remaining within_capacity_def)

lemma Count_NewCollector [simp]: "Count (NewCollector r cap d) key = 0"
  by (simp add: NewCollector_def Count_def)

lemma capacity_NewCollector [simp]: "capacity (NewCollector r cap d) = cap"
  by (simp add: NewCollector_def)

lemma Count_Add:
  "Count (Add c key amount) key' =
     (if key' = key \<and> int (Count c key) < sint (capacity c)
      then nat (int (Count c key) + min (sint amount) (sint (capacity c) - int (Count c key)))
      else Count c key')"
  by (auto simp: Add_def Count_def Let_def min_def)

lemma capacity_Add [simp]: "capacity (Add c key amount) = capacity c"
  by (simp add: Add_def Let_def)

lemma within_capacity_Add: "within_capacity c \<Longrightarrow> within_capacity (Add c key amount)"
  by (auto simp: within_capacity_def Count_Add)

lemma within_capacity_NewCollector: "0 \<le>s cap \<Longrightarrow> within_capacity (NewCollector r cap d)"
  by (simp add: within_capacity_def word_sle_eq)


lemma Remaining_Add_other:
  "key' \<noteq> key \<Longrightarrow> Remaining (Add c key amount) key' = Remaining c key'"
  by (simp add: Remaining_def Count_Add)

lemma limiterMap_addRawStream: "limiterMap (addRawStream l stream) = limiterMap l"
  by (simp add: addRawStream_def retrieveCollector_def mutex_defs Errorf_def Let_def split: option.splits)

lemma limiterMap_topicCollector: "limiterMap (snd (topicCollector l topic)) = limiterMap l"
  by (simp add: topicCollector_def mutex_defs Let_def)

lemma limiterMap_validateRequest: "limiterMap (snd (validateRequest l stream amt)) = limiterMap l"
  by (cases "limiterMap l (Protocol stream)")
     (simp_all add: validateRequest_unregistered validateRequest_registered)

lemma limiterMap_validateRawRpcRequest: "limiterMap (snd (validateRawRpcRequest l stream)) = limiterMap l"
  by (cases "limiterMap l rpcLimiterTopic")
     (simp_all add: validateRawRpcRequest_unregistered validateRawRpcRequest_registered)

lemma limiterMap_perform: "limiterMap (perform l c) = limiterMap l"
  by (cases c)
     (simp_all add: limiterMap_add limiterMap_addRawStream limiterMap_topicCollector
        limiterMap_validateRequest limiterMap_validateRawRpcRequest)

lemma limiterMap_performAll: "limiterMap (performAll l cs) = limiterMap l"
  unfolding performAll_def
  by (induction cs arbitrary: l) (simp_all add: limiterMap_perform)

text \<open>Every collector of the limiter built by \<open>newRateLimiter\<close> keeps its counts within its
  capacity, whatever public operations other than \<open>free\<close> have been called.\<close>

lemma within_capacity_newRateLimiter: "within_capacity (heap (newRateLimiter p) a)"
  by (simp add: newRateLimiter_def blankHeap_def within_capacity_NewCollector
      defaultBurstLimit_def word_sle_eq)

lemma heap_perform:
  "heap (perform l c) = heap l
   \<or> (\<exists>a key amount. heap (perform l c) = (heap l)(a := Add (heap l a) key amount))"
proof (cases c)
  case (CallTopicCollector topic)
  then show ?thesis by (simp add: topicCollector_def mutex_defs Let_def)
next
  case (CallValidateRequest stream amt)
  then show ?thesis
    by (cases "limiterMap l (Protocol stream)")
       (simp_all add: validateRequest_unregistered validateRequest_registered)
next
  case (CallValidateRawRpcRequest stream)
  then show ?thesis
    by (cases "limiterMap l rpcLimiterTopic")
       (simp_all add: validateRawRpcRequest_unregistered validateRawRpcRequest_registered)
next
  case (CallAdd stream amt)
  then show ?thesis
    by (cases "limiterMap l (Protocol stream)")
       (auto simp: add_unregistered add_registered)
next
  case (CallAddRawStream stream)
  then show ?thesis
    by (cases "limiterMap l rpcLimiterTopic")
       (auto simp: addRawStream_unregistered addRawStream_registered)
qed

lemma within_capacity_perform:
  assumes "\<And>a. within_capacity (heap l a)"
  shows "within_capacity (heap (perform l c) a)"
  using heap_perform [of l c] assms
  by (auto simp: within_capacity_Add)

lemma within_capacity_performAll:
  assumes "\<And>a. within_capacity (heap l a)"
  shows "within_capacity (heap (performAll l cs) a)"
  using assms unfolding performAll_def
proof (induction cs arbitrary: l a)
  case Nil
  then show ?case by simp
next
  case (Cons c cs)
  show ?case
    using Cons.IH [of "perform l c" a] within_capacity_perform [of l c] Cons.prems
    by simp
qed

lemma within_capacity_reachable:
  "within_capacity (heap (performAll (newRateLimiter p) calls) a)"
  by (rule within_capacity_performAll) (rule within_capacity_newRateLimiter)

lemma example_gate: "limiterMap (newRateLimiter example_provider) rpcLimiterTopic = Some 5"
  by (simp add: newRateLimiter_def example_defs)

lemma general_gate_nonneg_remaining:
  assumes "\<And>c. limiterMap l rpcLimiterTopic = Some c \<Longrightarrow> 0 \<le>s Remaining (heap l c) (RemotePeer stream)"
  shows "validateRawRpcRequest l stream = checkGeneralAdmission_spec l stream"
proof (cases "limiterMap l rpcLimiterTopic")
  case None
  then show ?thesis
    by (simp add: checkGeneralAdmission_spec_def validateRawRpcRequest_unregistered
        validateRequest_unregistered)
next
  case (Some a)
  with assms have nonneg: "0 \<le>s Remaining (heap l a) (RemotePeer stream)"
    by simp
  have "Remaining (heap l a) (RemotePeer stream) <s 1
          \<longleftrightarrow> Remaining (heap l a) (RemotePeer stream) < 1"
    using unsigned_less_iff_nonneg [OF nonneg, of 1]
    by (simp add: word_sless_alt)
  with Some show ?thesis
    by (simp add: checkGeneralAdmission_spec_def validateRawRpcRequest_registered
        validateRequest_registered)
qed

lemma free_range_limiterMap:
  "limiterMap (free_range ks T l) = (\<lambda>t. if t \<in> set ks then None else limiterMap l t)"
proof (induction ks arbitrary: T l)
  case Nil
  then show ?case by simp
next
  case (Cons t ts)
  show ?case
  proof (cases "limiterMap l t")
    case None
    then show ?thesis
      by (auto simp: Cons.IH)
  next
    case (Some c)
    then show ?thesis
      by (auto simp: Cons.IH Let_def)
  qed
qed

lemma free_range_heap:
  "heap (free_range ks T l) a =
     (if \<not> T a \<and> (\<exists>t \<in> set ks. limiterMap l t = Some a) then Free (heap l a) else heap l a)"
proof (induction ks arbitrary: T l)
  case Nil
  then show ?case by simp
next
  case (Cons t ts)
  show ?case
  proof (cases "limiterMap l t")
    case None
    then show ?thesis
      by (auto simp: Cons.IH)
  next
    case (Some c)
    show ?thesis
    proof (cases "T c")
      case True
      with Some show ?thesis
        by (auto simp: Cons.IH)
    next
      case False
      with Some show ?thesis
        by (auto simp: Cons.IH Let_def)
    qed
  qed
qed

lemma free_range_other_fields:
  "mutex (free_range ks T l) = mutex l \<and> p2p (free_range ks T l) = p2p l
   \<and> increments (free_range ks T l) = increments l
   \<and> responses (free_range ks T l) = responses l
   \<and> logged (free_range ks T l) = logged l"
  by (induction ks arbitrary: T l) (simp_all add: Let_def split: option.splits)

lemma limiterMap_free:
  assumes "dom (limiterMap l) \<subseteq> set order"
  shows "limiterMap (free order l) = Map.empty"
proof
  fix t
  show "limiterMap (free order l) t = None"
    using assms by (auto simp: free_def mutex_defs free_range_limiterMap)
qed

lemma heap_free:
  "heap (free order l) a =
     (if \<exists>t \<in> set order. limiterMap l t = Some a then Free (heap l a) else heap l a)"
  by (simp add: free_def mutex_defs free_range_heap)

lemma aliased_keys:
  "set [''/range/ssz'', ''/root/ssz'', rpcLimiterTopic] = dom (limiterMap aliased_limiter)"
  by (auto simp: aliased_limiter_def rpcLimiterTopic_def)

lemma example_keys_cover: "dom (limiterMap (newRateLimiter example_provider)) \<subseteq> set example_keys"
  by (auto simp: newRateLimiter_def example_keys_def example_defs split: if_splits)

lemma disposed_limiter_empty: "limiterMap disposed_limiter = Map.empty"
  unfolding disposed_limiter_def by (rule limiterMap_free [OF example_keys_cover])

lemma limiterMap_newRateLimiter_gate: "limiterMap (newRateLimiter p) rpcLimiterTopic = Some 5"
  by (simp add: newRateLimiter_def)

lemma topicCollector_eq:
  "topicCollector l topic =
     ((case limiterMap l topic of None \<Rightarrow> Inl (ErrCollectorDoesNotExist topic) | Some c \<Rightarrow> Inr c), l)"
  by (simp add: topicCollector_def retrieveCollector_def mutex_defs Let_def)


subsection \<open>Rejection of a request above the remaining tokens\<close>

text \<open>
  Claim C4. In the limiter built by \<open>newRateLimiter\<close>, after any public calls, for a stream
  whose topic is registered: when the declared amount (0 counted as 1) is greater than the
  peer's remaining tokens, \<open>validateRequest\<close> passes the stream's peer to \<^verbatim>\<open>Increment\<close>
  exactly once, writes exactly one rejection onto the stream and returns the rate-limited
  error together with the state that holds both effects; when the amount is within the
  remaining tokens, it returns no error and the state is as before. The remaining count of
  such a limiter is never negative, so the unsigned test of the code is the comparison of the
  two numbers.
\<close>

theorem validateRequest_rejects_exactly_once:
  "limiterMap (performAll (newRateLimiter p) calls) (Protocol stream) = Some c \<longrightarrow>
     validateRequest (performAll (newRateLimiter p) calls) stream amt =
       (if sint (Remaining (heap (performAll (newRateLimiter p) calls) c) (RemotePeer stream))
             < uint (if amt = 0 then 1 else amt)
        then (Some ErrRateLimited,
              (performAll (newRateLimiter p) calls)
                \<lparr>increments := increments (performAll (newRateLimiter p) calls) @ [RemotePeer stream],
                  responses := responses (performAll (newRateLimiter p) calls)
                     @ [(sid stream, responseCodeInvalidRequest, ErrRateLimited)]\<rparr>)
        else (None, performAll (newRateLimiter p) calls))"
proof
  let ?l = "performAll (newRateLimiter p) calls"
  assume reg: "limiterMap ?l (Protocol stream) = Some c"
  have "0 \<le>s Remaining (heap ?l c) (RemotePeer stream)"
    by (rule Remaining_nonneg) (rule within_capacity_reachable)
  with reg show "validateRequest ?l stream amt =
       (if sint (Remaining (heap ?l c) (RemotePeer stream)) < uint (if amt = 0 then 1 else amt)
        then (Some ErrRateLimited,
              ?l\<lparr>increments := increments ?l @ [RemotePeer stream],
                 responses := responses ?l
                     @ [(sid stream, responseCodeInvalidRequest, ErrRateLimited)]\<rparr>)
        else (None, ?l))"
    by (rule validateRequest_nonneg_remaining)
qed

theorem validateRequest_rejects_exactly_once_witness:
  "limiterMap (performAll (newRateLimiter example_provider) [CallAdd goodbye_stream 2])
       (Protocol goodbye_stream) = Some 0
   \<and> Remaining (heap (performAll (newRateLimiter example_provider) [CallAdd goodbye_stream 2]) 0)
       (RemotePeer goodbye_stream) = 0
   \<and> fst (validateRequest (performAll (newRateLimiter example_provider) [CallAdd goodbye_stream 2])
            goodbye_stream 1) = Some ErrRateLimited
   \<and> increments (snd (validateRequest
         (performAll (newRateLimiter example_provider) [CallAdd goodbye_stream 2])
         goodbye_stream 1)) = [''P'']
   \<and> responses (snd (validateRequest
         (performAll (newRateLimiter example_provider) [CallAdd goodbye_stream 2])
         goodbye_stream 1)) = [(7, responseCodeInvalidRequest, ErrRateLimited)]
   \<and> Remaining (heap (newRateLimiter example_provider) 0) (RemotePeer goodbye_stream) = 1
   \<and> validateRequest (newRateLimiter example_provider) goodbye_stream 1
       = (None, newRateLimiter example_provider)"
proof -
  let ?l = "add (newRateLimiter example_provider) goodbye_stream 2"
  have g: "RemotePeer goodbye_stream = ''P''" "sid goodbye_stream = 7"
    by (simp_all add: goodbye_stream_def)
  have reg: "limiterMap ?l (Protocol goodbye_stream) = Some 0"
    by (simp add: limiterMap_add example_goodbye)
  have fresh: "Remaining (heap (newRateLimiter example_provider) 0) ''P'' = 1"
    by (simp add: newRateLimiter_def Remaining_def)
  have spent: "Remaining (heap ?l 0) ''P'' = 0"
    by (simp add: add_registered [OF example_goodbye] Remaining_def Count_Add g)
       (simp add: newRateLimiter_def)
  have quiet: "increments ?l = []" "responses ?l = []"
    by (simp_all add: add_registered [OF example_goodbye]) (simp_all add: newRateLimiter_def)
  show ?thesis
    using validateRequest_rejects_exactly_once
        [of example_provider "[CallAdd goodbye_stream 2]" goodbye_stream 0 1]
      validateRequest_rejects_exactly_once [of example_provider "[]" goodbye_stream 0 1]
      reg example_goodbye
    by (simp add: performAll_def g spent fresh quiet)
qed

subsection \<open>A declared amount of zero\<close>

text \<open>
  Claim C6. For every limiter state and every stream, \<open>validateRequest\<close> with a declared
  amount of 0 gives the same result and the same state afterwards (penalties, responses, log,
  collectors) as with a declared amount of 1.
\<close>

theorem validateRequest_zero_is_one:
  "validateRequest l stream 0 = validateRequest l stream 1"
  by (simp add: validateRequest_def)

subsection \<open>The general admission check against the per-topic check\<close>

text \<open>
  Claim C5. In the limiter built by \<open>newRateLimiter\<close>, after any public calls,
  \<open>validateRawRpcRequest\<close> on any stream, whatever the stream's own topic, gives the result
  and the state that the per-topic check gives on the catch-all topic with a cost of 1
  (\<open>checkGeneralAdmission_spec\<close>): both look the catch-all collector up, both reject exactly
  when the peer has less than one token remaining there, with one penalty and one rejection
  write, and both admit otherwise. The signed test of the one and the unsigned test of the
  other agree because the remaining count is never negative.
\<close>

theorem general_gate_matches_topic_check:
  "validateRawRpcRequest (performAll (newRateLimiter p) calls) stream
     = checkGeneralAdmission_spec (performAll (newRateLimiter p) calls) stream
   \<and> validateRawRpcRequest (performAll (newRateLimiter p) calls) stream =
       (if sint (Remaining (heap (performAll (newRateLimiter p) calls) 5) (RemotePeer stream)) < 1
        then (Some ErrRateLimited,
              (performAll (newRateLimiter p) calls)
                \<lparr>increments := increments (performAll (newRateLimiter p) calls) @ [RemotePeer stream],
                  responses := responses (performAll (newRateLimiter p) calls)
                     @ [(sid stream, responseCodeInvalidRequest, ErrRateLimited)]\<rparr>)
        else (None, performAll (newRateLimiter p) calls))"
proof -
  let ?l = "performAll (newRateLimiter p) calls"
  have reg: "limiterMap ?l rpcLimiterTopic = Some 5"
    by (simp add: limiterMap_performAll limiterMap_newRateLimiter_gate)
  have same: "validateRawRpcRequest ?l stream = checkGeneralAdmission_spec ?l stream"
    by (rule general_gate_nonneg_remaining) (simp add: Remaining_nonneg within_capacity_reachable)
  have "validateRawRpcRequest ?l stream =
       (if sint (Remaining (heap ?l 5) (RemotePeer stream)) < 1
        then (Some ErrRateLimited,
              ?l\<lparr>increments := increments ?l @ [RemotePeer stream],
                 responses := responses ?l
                     @ [(sid stream, responseCodeInvalidRequest, ErrRateLimited)]\<rparr>)
        else (None, ?l))"
    by (simp add: validateRawRpcRequest_registered [OF reg] word_sless_alt)
  with same show ?thesis
    by simp
qed

subsection \<open>Disposal\<close>

text \<open>
  Claim C1. \<open>free\<close> calls \<^verbatim>\<open>Free\<close> exactly once on every collector that the map refers to,
  however many topic keys hold its pointer, and on no other collector; afterwards the map has
  no entries. This holds for every order in which the range reaches the keys of the map.
\<close>

theorem free_disposes_each_collector_once:
  assumes "set order = dom (limiterMap l)"
  shows "limiterMap (free order l) = Map.empty
    \<and> (limiterMap l t = Some a \<longrightarrow>
          heap (free order l) a = Free (heap l a)
          \<and> free_calls (heap (free order l) a) = Suc (free_calls (heap l a)))
    \<and> ((\<forall>t. limiterMap l t \<noteq> Some a) \<longrightarrow> heap (free order l) a = heap l a)"
proof -
  have empty: "limiterMap (free order l) = Map.empty"
    using assms by (simp add: limiterMap_free)
  have once: "heap (free order l) a = Free (heap l a)" if "limiterMap l t = Some a"
  proof -
    from that assms have "t \<in> set order" by auto
    with that show ?thesis by (auto simp: heap_free)
  qed
  have untouched: "heap (free order l) a = heap l a" if "\<forall>t. limiterMap l t \<noteq> Some a"
    using that by (simp add: heap_free)
  from empty once untouched show ?thesis
    by (simp add: Free_def)
qed

theorem free_disposes_each_collector_once_witness:
  "limiterMap aliased_limiter ''/range/ssz'' = Some 4
   \<and> limiterMap aliased_limiter ''/root/ssz'' = Some 4
   \<and> limiterMap (free [''/range/ssz'', ''/root/ssz'', rpcLimiterTopic] aliased_limiter) = Map.empty
   \<and> free_calls (heap (free [''/range/ssz'', ''/root/ssz'', rpcLimiterTopic] aliased_limiter) 4) = 1
   \<and> free_calls (heap (free [''/range/ssz'', ''/root/ssz'', rpcLimiterTopic] aliased_limiter) 5) = 1
   \<and> free_calls (heap (free [''/range/ssz'', ''/root/ssz'', rpcLimiterTopic] aliased_limiter) 0) = 0"
proof -
  have m: "limiterMap aliased_limiter ''/range/ssz'' = Some 4"
    "limiterMap aliased_limiter ''/root/ssz'' = Some 4"
    "limiterMap aliased_limiter rpcLimiterTopic = Some 5"
    "\<forall>t. limiterMap aliased_limiter t \<noteq> Some 0"
    by (simp_all add: aliased_limiter_def rpcLimiterTopic_def)
  have h: "free_calls (heap aliased_limiter 4) = 0" "free_calls (heap aliased_limiter 5) = 0"
    "free_calls (heap aliased_limiter 0) = 0"
    by (simp_all add: aliased_limiter_def newRateLimiter_def NewCollector_def)
  show ?thesis
    using free_disposes_each_collector_once [OF aliased_keys, of "''/root/ssz''" 4]
      free_disposes_each_collector_once [OF aliased_keys, of rpcLimiterTopic 5]
      free_disposes_each_collector_once [OF aliased_keys, of "''x''" 0]
      m h
    by (simp add: Free_def)
qed

subsection \<open>Unregistered topics\<close>

text \<open>
  Claim C7. For a stream whose topic has no entry in the map, \<open>add\<close> returns with no error
  for the caller (it has no result besides the state), logs the failure and leaves every
  collector as it was; the checks return an error to the caller: \<open>validateRequest\<close> for the
  stream's topic, \<open>validateRawRpcRequest\<close> when the catch-all topic has no entry.
\<close>

theorem commit_ignores_unregistered_topic:
  "(limiterMap l (Protocol stream) = None \<longrightarrow>
      add l stream amt =
        l\<lparr>mutex := (mutex l)\<lparr>writer := False\<rparr>,
          logged := logged l @ [does_not_exist (Protocol stream)]\<rparr>
      \<and> heap (add l stream amt) = heap l
      \<and> validateRequest l stream n = (Some (ErrCollectorDoesNotExist (Protocol stream)), l))
   \<and> (limiterMap l rpcLimiterTopic = None \<longrightarrow>
      validateRawRpcRequest l stream = (Some (ErrCollectorDoesNotExist rpcLimiterTopic), l))"
  by (simp add: add_unregistered validateRequest_unregistered validateRawRpcRequest_unregistered)

theorem commit_ignores_unregistered_topic_witness:
  "limiterMap (newRateLimiter example_provider) (Protocol unknown_stream) = None
   \<and> heap (add (newRateLimiter example_provider) unknown_stream 3)
       = heap (newRateLimiter example_provider)
   \<and> logged (add (newRateLimiter example_provider) unknown_stream 3)
       = [does_not_exist ''/unknown/ssz'']
   \<and> fst (validateRequest (newRateLimiter example_provider) unknown_stream 3)
       = Some (ErrCollectorDoesNotExist ''/unknown/ssz'')
   \<and> limiterMap disposed_limiter rpcLimiterTopic = None
   \<and> fst (validateRawRpcRequest disposed_limiter goodbye_stream)
       = Some (ErrCollectorDoesNotExist rpcLimiterTopic)"
proof -
  have m: "limiterMap (newRateLimiter example_provider) ''/unknown/ssz'' = None"
    "Protocol unknown_stream = ''/unknown/ssz''"
    "logged (newRateLimiter example_provider) = []"
    by (simp_all add: newRateLimiter_def example_defs)
  show ?thesis
    using commit_ignores_unregistered_topic
        [of "newRateLimiter example_provider" unknown_stream 3 3]
      commit_ignores_unregistered_topic [of disposed_limiter goodbye_stream 3 3]
    by (simp add: m disposed_limiter_empty)
qed

subsection \<open>The catch-all topic is always configured\<close>

text \<open>
  Claim C8. In the limiter built by \<open>newRateLimiter\<close>, after any sequence of public calls
  other than \<open>free\<close>, the catch-all topic is in the map. So \<open>validateRawRpcRequest\<close> returns
  either no error or the rate-limited error, never an internal one, and \<open>addRawStream\<close> logs
  no error and commits a cost of 1 to the general collector.
\<close>

theorem general_gate_never_unconfigured:
  "limiterMap (performAll (newRateLimiter p) calls) rpcLimiterTopic = Some 5
   \<and> (fst (validateRawRpcRequest (performAll (newRateLimiter p) calls) stream) = None
        \<or> fst (validateRawRpcRequest (performAll (newRateLimiter p) calls) stream) = Some ErrRateLimited)
   \<and> logged (addRawStream (performAll (newRateLimiter p) calls) stream)
        = logged (performAll (newRateLimiter p) calls)
   \<and> heap (addRawStream (performAll (newRateLimiter p) calls) stream) 5
        = Add (heap (performAll (newRateLimiter p) calls) 5) (RemotePeer stream) 1"
proof -
  let ?l = "performAll (newRateLimiter p) calls"
  have reg: "limiterMap ?l rpcLimiterTopic = Some 5"
    by (simp add: limiterMap_performAll limiterMap_newRateLimiter_gate)
  then show ?thesis
    by (simp add: validateRawRpcRequest_registered addRawStream_registered)
qed

subsection \<open>Lock discipline\<close>

text \<open>
  Claim C3. \<open>retrieveCollector\<close> returns the lock error whenever the mutex is held neither by
  a writer nor by a reader. Every public operation takes the lock first, so the lock error is
  never the outcome: the lookup after \<open>RLock\<close> or \<open>Lock\<close> never gives it, the results of
  \<open>topicCollector\<close>, \<open>validateRequest\<close> and \<open>validateRawRpcRequest\<close> are never the lock
  error, \<open>add\<close> and \<open>addRawStream\<close> commit the cost and log nothing whenever their topic is
  registered, and \<open>free\<close>, which does not call \<open>retrieveCollector\<close>, takes the write
  lock, runs its loop with the lock held and releases it at the end.
\<close>

theorem lock_error_unreachable:
  "(\<not> writer (mutex l) \<and> readers (mutex l) = 0 \<longrightarrow>
       retrieveCollector l topic = Inl ErrCallerMustHoldLock)
   \<and> retrieveCollector (RLock l) topic \<noteq> Inl ErrCallerMustHoldLock
   \<and> retrieveCollector (Lock l) topic \<noteq> Inl ErrCallerMustHoldLock
   \<and> fst (topicCollector l topic) \<noteq> Inl ErrCallerMustHoldLock
   \<and> fst (validateRequest l stream amt) \<noteq> Some ErrCallerMustHoldLock
   \<and> fst (validateRawRpcRequest l stream) \<noteq> Some ErrCallerMustHoldLock
   \<and> (limiterMap l (Protocol stream) = Some c \<longrightarrow>
        logged (add l stream n) = logged l
        \<and> heap (add l stream n) c = Add (heap l c) (RemotePeer stream) n)
   \<and> (limiterMap l rpcLimiterTopic = Some c \<longrightarrow>
        logged (addRawStream l stream) = logged l
        \<and> heap (addRawStream l stream) c = Add (heap l c) (RemotePeer stream) 1)
   \<and> free order l = Unlock (free_range order (\<lambda>_. False) (Lock l))
   \<and> RWMutexLocked (mutex (Lock l))
   \<and> RWMutexLocked (mutex (free_range order (\<lambda>_. False) (Lock l)))
   \<and> mutex (free order l) = (mutex l)\<lparr>writer := False\<rparr>"
proof -
  have a: "\<not> writer (mutex l) \<and> readers (mutex l) = 0 \<longrightarrow>
       retrieveCollector l topic = Inl ErrCallerMustHoldLock"
    by (simp add: retrieveCollector_def mutex_defs)
  have b: "retrieveCollector (RLock l) topic \<noteq> Inl ErrCallerMustHoldLock"
    "retrieveCollector (Lock l) topic \<noteq> Inl ErrCallerMustHoldLock"
    by (simp_all add: retrieveCollector_def mutex_defs split: option.splits)
  have c: "fst (topicCollector l topic) \<noteq> Inl ErrCallerMustHoldLock"
    by (simp add: topicCollector_eq split: option.splits)
  have d: "fst (validateRequest l stream amt) \<noteq> Some ErrCallerMustHoldLock"
    by (cases "limiterMap l (Protocol stream)")
       (simp_all add: validateRequest_unregistered validateRequest_registered)
  have e: "fst (validateRawRpcRequest l stream) \<noteq> Some ErrCallerMustHoldLock"
    by (cases "limiterMap l rpcLimiterTopic")
       (simp_all add: validateRawRpcRequest_unregistered validateRawRpcRequest_registered)
  have f: "RWMutexLocked (mutex (free_range order (\<lambda>_. False) (Lock l)))"
    by (simp add: free_range_other_fields) (simp add: mutex_defs)
  have g: "free order l = Unlock (free_range order (\<lambda>_. False) (Lock l))"
    by (simp add: free_def)
  have h: "RWMutexLocked (mutex (Lock l))"
    by (simp add: mutex_defs)
  have i: "mutex (free order l) = (mutex l)\<lparr>writer := False\<rparr>"
    by (simp add: free_def Unlock_def free_range_other_fields) (simp add: Lock_def)
  from a b c d e f g h i show ?thesis
    by (simp add: add_registered addRawStream_registered)
qed

theorem lock_error_unreachable_witness:
  "retrieveCollector (newRateLimiter example_provider) ''/goodbye/ssz'' = Inl ErrCallerMustHoldLock
   \<and> fst (topicCollector (newRateLimiter example_provider) ''/goodbye/ssz'') \<noteq> Inl ErrCallerMustHoldLock
   \<and> logged (add (newRateLimiter example_provider) goodbye_stream 1) = []
   \<and> logged (addRawStream (newRateLimiter example_provider) goodbye_stream) = []
   \<and> \<not> writer (mutex (free example_keys (newRateLimiter example_provider)))"
proof -
  have m: "\<not> writer (mutex (newRateLimiter example_provider))"
    "readers (mutex (newRateLimiter example_provider)) = 0"
    "logged (newRateLimiter example_provider) = []"
    by (simp_all add: newRateLimiter_def)
  show ?thesis
    using lock_error_unreachable [of "newRateLimiter example_provider" "''/goodbye/ssz''"
        goodbye_stream 1 0 1 example_keys]
      lock_error_unreachable [of "newRateLimiter example_provider" "''/goodbye/ssz''"
        goodbye_stream 1 5 1 example_keys]
      m example_goodbye example_gate
    by simp
qed

subsection \<open>Topic keys that share a collector\<close>




section \<open>Properties of resources and tasks\<close>

lemma ResourceArray_To_range_Some:
  "ResourceArray_To_range arr (map Some rs) = Inr (arr @ map Resource.data rs)"
  by (induction rs arbitrary: arr) simp_all

lemma TaskDataArray_To_range_Some:
  "TaskDataArray_To_range arr (map Some ts) = Inr (arr @ map Task.data ts)"
  by (induction ts arbitrary: arr) simp_all

lemma ResourceArray_To_range_nil:
  "None \<in> set s \<Longrightarrow> ResourceArray_To_range arr s = Inl NilPointerDereference"
  by (induction s arbitrary: arr) (auto split: option.splits)

lemma ResourceArray_To_nil:
  "None \<in> set s \<Longrightarrow> ResourceArray_To s = Inl NilPointerDereference"
  by (simp add: ResourceArray_To_def ResourceArray_To_range_nil)

subsection \<open>Encoding\<close>

text \<open>
  Claim C9. \<open>Resource_EncodePb\<close> passes the marshalled bytes to the writer only when
  \<^verbatim>\<open>Marshal\<close> returns an error, and returns that error; when marshalling succeeds it writes
  nothing and returns no error. \<open>Task_EncodePb\<close> is the inverse: it writes exactly when
  \<^verbatim>\<open>Marshal\<close> succeeds (after replacing a \<^verbatim>\<open>nil\<close> message by a new one).
\<close>

theorem Resource_EncodePb_writes_on_error_only:
  "(snd (Marshal (Resource.data m)) = None \<longrightarrow> Resource_EncodePb Marshal m w = (None, w))
   \<and> (snd (Marshal (Resource.data m)) = Some e \<longrightarrow>
        Resource_EncodePb Marshal m w = (Some e, w @ [fst (Marshal (Resource.data m))]))
   \<and> (snd (Marshal (Task.data t)) = None \<and> Task.data t \<noteq> None \<longrightarrow>
        Task_EncodePb Marshal new t w = (None, t, w @ [fst (Marshal (Task.data t))]))
   \<and> (snd (Marshal (Task.data t)) = Some e \<and> Task.data t \<noteq> None \<longrightarrow>
        Task_EncodePb Marshal new t w = (Some e, t, w))
   \<and> (snd (Marshal (Some new)) = None \<and> Task.data t = None \<longrightarrow>
        Task_EncodePb Marshal new t w
          = (None, t\<lparr>Task.data := Some new\<rparr>, w @ [fst (Marshal (Some new))]))
   \<and> (snd (Marshal (Some new)) = Some e \<and> Task.data t = None \<longrightarrow>
        Task_EncodePb Marshal new t w = (Some e, t\<lparr>Task.data := Some new\<rparr>, w))"
  by (auto simp: Resource_EncodePb_def Task_EncodePb_def Write_def Let_def split: prod.splits)

theorem Resource_EncodePb_writes_on_error_only_witness:
  "Resource_EncodePb example_Marshal \<lparr>Resource.data = Some 7\<rparr> [] = (None, [])
   \<and> Resource_EncodePb example_Marshal \<lparr>Resource.data = Some 300\<rparr> [] = (Some ''too large'', [[]])
   \<and> Task_EncodePb example_Marshal 0 \<lparr>Task.data = Some 7\<rparr> [] = (None, \<lparr>Task.data = Some 7\<rparr>, [[7]])
   \<and> Task_EncodePb example_Marshal 0 \<lparr>Task.data = Some 300\<rparr> []
        = (Some ''too large'', \<lparr>Task.data = Some 300\<rparr>, [])
   \<and> Task_EncodePb example_Marshal 0 \<lparr>Task.data = None\<rparr> [] = (None, \<lparr>Task.data = Some 0\<rparr>, [[0]])
   \<and> Task_EncodePb example_Marshal 300 \<lparr>Task.data = None\<rparr> []
        = (Some ''too large'', \<lparr>Task.data = Some 300\<rparr>, [])"
  using Resource_EncodePb_writes_on_error_only
      [of example_Marshal "\<lparr>Resource.data = Some 7\<rparr>" "[]" "''too large''" "\<lparr>Task.data = Some 7\<rparr>" 0]
    Resource_EncodePb_writes_on_error_only
      [of example_Marshal "\<lparr>Resource.data = Some 300\<rparr>" "[]" "''too large''" "\<lparr>Task.data = Some 300\<rparr>" 0]
    Resource_EncodePb_writes_on_error_only
      [of example_Marshal "\<lparr>Resource.data = Some 300\<rparr>" "[]" "''too large''" "\<lparr>Task.data = None\<rparr>" 0]
    Resource_EncodePb_writes_on_error_only
      [of example_Marshal "\<lparr>Resource.data = Some 300\<rparr>" "[]" "''too large''" "\<lparr>Task.data = None\<rparr>" 300]
  by (simp add: example_Marshal_def)

subsection \<open>Conversion of a resource array\<close>

text \<open>
  Claim C10, as stated, says that \<open>ResourceArray_To\<close> returns a slice for every array. An
  array with a \<^verbatim>\<open>nil\<close> element is a value of the type, and on it the loop panics when it
  reads the element's field, so nothing is returned.
\<close>

theorem ResourceArray_To_nil_element:
  "ResourceArray_To [Some \<lparr>Resource.data = Some (1 :: nat)\<rparr>, None] = Inl NilPointerDereference"
  by (simp add: ResourceArray_To_def ResourceArray_Len_def)

text \<open>
  Claim C10, amended. For every resource array whose elements are all non-nil,
  \<open>ResourceArray_To\<close> returns a slice of twice the array's length: the first half are
  \<^verbatim>\<open>nil\<close> pointers, the second half the elements' data in order. \<open>TaskDataArray_To\<close> on such
  an array returns exactly the elements' data, of the array's length.
\<close>

theorem ResourceArray_To_doubles:
  "ResourceArray_To (map Some rs)
      = Inr (replicate (ResourceArray_Len (map Some rs)) None @ map Resource.data rs)
   \<and> length (replicate (ResourceArray_Len (map Some rs)) None @ map Resource.data rs)
      = 2 * ResourceArray_Len (map Some rs)
   \<and> take (ResourceArray_Len (map Some rs))
        (replicate (ResourceArray_Len (map Some rs)) None @ map Resource.data rs)
      = replicate (ResourceArray_Len (map Some rs)) None
   \<and> drop (ResourceArray_Len (map Some rs))
        (replicate (ResourceArray_Len (map Some rs)) None @ map Resource.data rs)
      = map Resource.data rs
   \<and> TaskDataArray_To (map Some ts) = Inr (map Task.data ts)
   \<and> length (map Task.data ts) = TaskDataArray_Len (map Some ts)"
  by (simp add: ResourceArray_To_def ResourceArray_Len_def ResourceArray_To_range_Some
      TaskDataArray_To_def TaskDataArray_Len_def TaskDataArray_To_range_Some)

end
